theory Spec2Isabelle
  imports Main "HOL-Library.Char_ord" "HOL-Library.List_Lexorder" "HOL-Library.Multiset"
begin

section \<open>Paint Touch Tracker backend: the store and its operations\<close>

text \<open>
  The program is \<^verbatim>\<open>backend/main.py\<close>: a service over an SQLite file with two tables,
  \<^verbatim>\<open>games\<close> and \<^verbatim>\<open>possessions\<close>. Every endpoint opens a connection in a
  \<^verbatim>\<open>with\<close> block, which commits when the block is left normally and rolls back when
  an exception leaves it. The model passes the committed contents of the two tables
  explicitly: each operation takes the store and returns the store it leaves behind
  together with its response or the exception it raises. A \<^typ>\<open>string\<close> is the UTF-8
  encoding of a Python \<^verbatim>\<open>str\<close>, the bytes SQLite stores and compares.
\<close>

subsection \<open>Request payloads (the pydantic models)\<close>

record GameIn =
  gi_client_id :: string
  gi_name :: string
  gi_opponent :: "string option"
  gi_game_date :: string

record PossessionIn =
  pi_client_id :: string
  pi_number :: int
  pi_quarter :: int
  pi_paint_touch :: bool
  pi_outcome :: string
  pi_points :: "int option"
  pi_notes :: "string option"
  pi_timestamp :: string

record SyncPayload =
  sp_game :: GameIn
  sp_possessions :: "PossessionIn list"

subsection \<open>Tables (the schema of \<^verbatim>\<open>init_db\<close>)\<close>

text \<open>
  A row of \<^verbatim>\<open>games\<close> has the six columns of the schema. A row of
  \<^verbatim>\<open>possessions\<close> has the nine columns that the INSERT statement fills; its
  \<^verbatim>\<open>id\<close> column is assigned by the store and no statement of the program reads it,
  so the model keeps the rows in insertion order instead. \<^verbatim>\<open>paint_touch\<close> is the
  integer 1 or 0, as the INSERT writes it.
\<close>

record game_row =
  g_id :: int
  g_client_id :: string
  g_name :: string
  g_opponent :: "string option"
  g_game_date :: string
  g_created_at :: string

record possession_row =
  p_client_id :: string
  p_game_id :: int
  p_number :: int
  p_quarter :: int
  p_paint_touch :: int
  p_outcome :: string
  p_points :: "int option"
  p_notes :: "string option"
  p_timestamp :: string

record store =
  games :: "game_row list"
  possessions :: "possession_row list"

definition init_db :: store where
  "init_db = \<lparr>games = [], possessions = []\<rparr>"

subsection \<open>Exceptions\<close>

text \<open>
  \<open>HTTPException\<close> is raised by the program itself. Two are raised by
  \<^verbatim>\<open>conn.execute\<close>: \<open>IntegrityError\<close> when a plain INSERT violates a UNIQUE
  constraint, \<open>OverflowError\<close> when a Python integer bound as a parameter does not fit
  SQLite's signed 64-bit INTEGER. \<open>UnicodeEncodeError\<close> is raised by the constructor of
  \<^verbatim>\<open>StreamingResponse\<close>, which encodes every header value as latin-1.
\<close>

datatype error = HTTPException nat string | IntegrityError | OverflowError | UnicodeEncodeError

definition sqlite_int :: "int \<Rightarrow> bool" where
  "sqlite_int i \<longleftrightarrow> - 9223372036854775808 \<le> i \<and> i \<le> 9223372036854775807"

subsection \<open>\<^verbatim>\<open>create_game\<close>\<close>

record game_response =
  r_id :: int
  r_created :: bool

text \<open>\<^verbatim>\<open>SELECT id FROM games WHERE client_id = ?\<close>, \<^verbatim>\<open>fetchone()\<close>.\<close>

definition select_game_by_client_id :: "string \<Rightarrow> store \<Rightarrow> game_row option" where
  "select_game_by_client_id c db = find (\<lambda>g. g_client_id g = c) (games db)"

text \<open>
  The id of an AUTOINCREMENT table: one more than the largest id the table has ever
  held (rows are never deleted, so that is the largest id in the table), and 1 for an
  empty table.
\<close>

definition next_rowid :: "int list \<Rightarrow> int" where
  "next_rowid ids = foldr max ids 0 + 1"

text \<open>
  \<^verbatim>\<open>INSERT INTO games (client_id, name, opponent, game_date, created_at)\<close> followed by
  \<^verbatim>\<open>SELECT last_insert_rowid()\<close>. The INSERT is a plain one: the UNIQUE constraint on
  \<^verbatim>\<open>client_id\<close> makes it raise when the client id is already in the table.
  \<open>now\<close> is the value of \<^verbatim>\<open>datetime.utcnow().isoformat()\<close>.
\<close>

definition insert_game :: "string \<Rightarrow> GameIn \<Rightarrow> store \<Rightarrow> error + (store \<times> int)" where
  "insert_game now game db =
     (if gi_client_id game \<in> set (map g_client_id (games db)) then Inl IntegrityError
      else
        let game_id = next_rowid (map g_id (games db));
            row = \<lparr>g_id = game_id, g_client_id = gi_client_id game, g_name = gi_name game,
                   g_opponent = gi_opponent game, g_game_date = gi_game_date game,
                   g_created_at = now\<rparr>
        in Inr (db\<lparr>games := games db @ [row]\<rparr>, game_id))"

definition create_game :: "string \<Rightarrow> GameIn \<Rightarrow> store \<Rightarrow> store \<times> (error + game_response)" where
  "create_game now game db =
     (case select_game_by_client_id (gi_client_id game) db of
        Some existing \<Rightarrow> (db, Inr \<lparr>r_id = g_id existing, r_created = False\<rparr>)
      | None \<Rightarrow>
          (case insert_game now game db of
             Inl e \<Rightarrow> (db, Inl e)
           | Inr (db', game_id) \<Rightarrow> (db', Inr \<lparr>r_id = game_id, r_created = True\<rparr>)))"

subsection \<open>\<^verbatim>\<open>add_possessions\<close>\<close>

text \<open>
  The integers of one possession that the INSERT binds as parameters, next to the game
  id. (\<^verbatim>\<open>paint_touch\<close> is bound as 1 or 0.)
\<close>

definition bindable :: "PossessionIn \<Rightarrow> bool" where
  "bindable p \<longleftrightarrow>
     sqlite_int (pi_number p) \<and> sqlite_int (pi_quarter p) \<and>
     (case pi_points p of None \<Rightarrow> True | Some v \<Rightarrow> sqlite_int v)"

definition possession_row_of :: "int \<Rightarrow> PossessionIn \<Rightarrow> possession_row" where
  "possession_row_of game_id p =
     \<lparr>p_client_id = pi_client_id p, p_game_id = game_id, p_number = pi_number p,
      p_quarter = pi_quarter p, p_paint_touch = (if pi_paint_touch p then 1 else 0),
      p_outcome = pi_outcome p, p_points = pi_points p, p_notes = pi_notes p,
      p_timestamp = pi_timestamp p\<rparr>"

text \<open>
  One \<^verbatim>\<open>INSERT OR IGNORE INTO possessions\<close>: the new table and \<^verbatim>\<open>cursor.rowcount\<close>.
  A row whose \<^verbatim>\<open>client_id\<close> is already in the table is ignored (row count 0).
\<close>

definition insert_or_ignore ::
    "int \<Rightarrow> PossessionIn \<Rightarrow> possession_row list \<Rightarrow> error + (possession_row list \<times> nat)" where
  "insert_or_ignore game_id p rows =
     (if \<not> (sqlite_int game_id \<and> bindable p) then Inl OverflowError
      else if pi_client_id p \<in> set (map p_client_id rows) then Inr (rows, 0)
      else Inr (rows @ [possession_row_of game_id p], 1))"

text \<open>The \<^verbatim>\<open>for possession in possessions\<close> loop, with its counter \<open>inserted\<close>.\<close>

fun insert_loop ::
    "int \<Rightarrow> PossessionIn list \<Rightarrow> possession_row list \<Rightarrow> nat \<Rightarrow> error + (possession_row list \<times> nat)" where
  "insert_loop game_id [] rows inserted = Inr (rows, inserted)"
| "insert_loop game_id (p # ps) rows inserted =
     (case insert_or_ignore game_id p rows of
        Inl e \<Rightarrow> Inl e
      | Inr (rows', rowcount) \<Rightarrow>
          insert_loop game_id ps rows' (if rowcount \<noteq> 0 then inserted + 1 else inserted))"

text \<open>\<^verbatim>\<open>SELECT ... FROM games WHERE id = ?\<close>, \<^verbatim>\<open>fetchone()\<close>.\<close>

definition select_game_by_id :: "int \<Rightarrow> store \<Rightarrow> game_row option" where
  "select_game_by_id game_id db = find (\<lambda>g. g_id g = game_id) (games db)"

text \<open>
  The empty list returns before the connection is opened. The SELECT binds
  \<open>game_id\<close>, so a game id that is no SQLite integer raises there. An exception
  inside the \<^verbatim>\<open>with\<close> block rolls the transaction back: the store is the one the
  call started from, whatever the loop had inserted.
\<close>

definition add_possessions :: "int \<Rightarrow> PossessionIn list \<Rightarrow> store \<Rightarrow> store \<times> (error + nat)" where
  "add_possessions game_id ps db =
     (if ps = [] then (db, Inr 0)
      else if \<not> sqlite_int game_id then (db, Inl OverflowError)
      else
        (case select_game_by_id game_id db of
           None \<Rightarrow> (db, Inl (HTTPException 404 ''Game not found''))
         | Some game \<Rightarrow>
             (case insert_loop game_id ps (possessions db) 0 of
                Inl e \<Rightarrow> (db, Inl e)
              | Inr (rows, inserted) \<Rightarrow> (db\<lparr>possessions := rows\<rparr>, Inr inserted))))"

subsection \<open>\<^verbatim>\<open>sync\<close>\<close>

record sync_response =
  s_game_id :: int
  s_created :: bool
  s_inserted_possessions :: nat

text \<open>
  Two calls, each with its own connection and its own commit: the store that
  \<^verbatim>\<open>add_possessions\<close> starts from is the one \<^verbatim>\<open>create_game\<close> committed.
\<close>

definition sync :: "string \<Rightarrow> SyncPayload \<Rightarrow> store \<Rightarrow> store \<times> (error + sync_response)" where
  "sync now payload db =
     (case create_game now (sp_game payload) db of
        (db1, Inl e) \<Rightarrow> (db1, Inl e)
      | (db1, Inr game_response) \<Rightarrow>
          (let game_id = r_id game_response in
           case add_possessions game_id (sp_possessions payload) db1 of
             (db2, Inl e) \<Rightarrow> (db2, Inl e)
           | (db2, Inr inserted) \<Rightarrow>
               (db2, Inr \<lparr>s_game_id = game_id, s_created = r_created game_response,
                          s_inserted_possessions = inserted\<rparr>)))"

subsection \<open>\<^verbatim>\<open>create_game\<close>, statement by statement\<close>

text \<open>
  Requests run in a thread pool, each on its own connection, so the statements of two
  requests can interleave. \<^verbatim>\<open>create_game\<close> executes two statements on the store:
  the SELECT, then (when no row was found) the INSERT, which commits as the
  \<^verbatim>\<open>with\<close> block is left. \<open>create_game_step\<close> runs the next statement of a
  request on the current store; \<open>interleave\<close> runs two requests in the order a
  schedule gives.
\<close>

datatype create_game_pc = At_select | At_insert | Returned "error + game_response"

definition create_game_step ::
    "string \<Rightarrow> GameIn \<Rightarrow> create_game_pc \<Rightarrow> store \<Rightarrow> create_game_pc \<times> store" where
  "create_game_step now game pc db =
     (case pc of
        At_select \<Rightarrow>
          (case select_game_by_client_id (gi_client_id game) db of
             Some existing \<Rightarrow> (Returned (Inr \<lparr>r_id = g_id existing, r_created = False\<rparr>), db)
           | None \<Rightarrow> (At_insert, db))
      | At_insert \<Rightarrow>
          (case insert_game now game db of
             Inl e \<Rightarrow> (Returned (Inl e), db)
           | Inr (db', game_id) \<Rightarrow> (Returned (Inr \<lparr>r_id = game_id, r_created = True\<rparr>), db'))
      | Returned r \<Rightarrow> (Returned r, db))"

datatype request = First | Second

fun interleave ::
    "request list \<Rightarrow> string \<times> GameIn \<Rightarrow> string \<times> GameIn \<Rightarrow>
     create_game_pc \<times> create_game_pc \<times> store \<Rightarrow> create_game_pc \<times> create_game_pc \<times> store" where
  "interleave [] a b config = config"
| "interleave (First # schedule) a b (pc_a, pc_b, db) =
     (case create_game_step (fst a) (snd a) pc_a db of
        (pc_a', db') \<Rightarrow> interleave schedule a b (pc_a', pc_b, db'))"
| "interleave (Second # schedule) a b (pc_a, pc_b, db) =
     (case create_game_step (fst b) (snd b) pc_b db of
        (pc_b', db') \<Rightarrow> interleave schedule a b (pc_a, pc_b', db'))"

subsection \<open>\<^verbatim>\<open>list_games\<close>\<close>

text \<open>
  \<^verbatim>\<open>SELECT * FROM games ORDER BY created_at DESC\<close>. The column is TEXT, compared byte
  by byte, a proper prefix first: the order of \<^typ>\<open>string\<close>. Rows with equal
  \<^verbatim>\<open>created_at\<close> come out in the order of their insertion, as SQLite returns them:
  the stable ascending sort of the reversed table, reversed.
\<close>

definition list_games :: "store \<Rightarrow> game_row list" where
  "list_games db = rev (sort_key g_created_at (rev (games db)))"

subsection \<open>\<^verbatim>\<open>export_csv\<close>\<close>

text \<open>Python's \<^verbatim>\<open>str\<close> of an integer, which the CSV writer applies to a number.\<close>

fun str_nat :: "nat \<Rightarrow> string" where
  "str_nat n =
     (if n < 10 then [''0123456789'' ! n]
      else str_nat (n div 10) @ [''0123456789'' ! (n mod 10)])"

declare str_nat.simps [simp del]

definition str_int :: "int \<Rightarrow> string" where
  "str_int i = (if i < 0 then CHR ''-'' # str_nat (nat (- i)) else str_nat (nat i))"

text \<open>
  \<^verbatim>\<open>csv.writer(output).writerow\<close> with the default dialect, for a row of several
  cells: cells joined by commas, the line ended by CR LF; a cell that contains a comma,
  a double quote, CR or LF is put in double quotes, with every double quote in it doubled.
\<close>

definition quotechar :: char where
  "quotechar = CHR 0x22"

definition csv_field :: "string \<Rightarrow> string" where
  "csv_field s =
     (if list_ex (\<lambda>c. c = CHR '','' \<or> c = quotechar \<or> c = CHR 0x0D \<or> c = CHR 0x0A) s
      then quotechar # concat (map (\<lambda>c. if c = quotechar then [c, c] else [c]) s) @ [quotechar]
      else s)"

fun join :: "string \<Rightarrow> string list \<Rightarrow> string" where
  "join sep [] = []"
| "join sep [x] = x"
| "join sep (x # y # ys) = x @ sep @ join sep (y # ys)"

definition writerow :: "string list \<Rightarrow> string" where
  "writerow cells = join '','' (map csv_field cells) @ [CHR 0x0D, CHR 0x0A]"

definition csv_header :: "string list" where
  "csv_header = [''possession_number'', ''quarter'', ''paint_touch'', ''points'', ''outcome'',
                 ''notes'', ''timestamp'']"

text \<open>The cells of one data row, as the loop over \<^verbatim>\<open>rows\<close> builds them.\<close>

definition csv_fields :: "possession_row \<Rightarrow> string list" where
  "csv_fields row =
     [str_int (p_number row), str_int (p_quarter row),
      (if p_paint_touch row \<noteq> 0 then ''yes'' else ''no''),
      (case p_points row of Some v \<Rightarrow> str_int v | None \<Rightarrow> ''''),
      p_outcome row,
      (case p_notes row of None \<Rightarrow> '''' | Some n \<Rightarrow> if n = [] then '''' else n),
      p_timestamp row]"

text \<open>
  \<^verbatim>\<open>SELECT ... FROM possessions WHERE game_id = ? ORDER BY number ASC\<close>. The order
  among rows with equal \<^verbatim>\<open>number\<close> is that of their insertion (a stable sort).
\<close>

definition select_possessions :: "int \<Rightarrow> store \<Rightarrow> possession_row list" where
  "select_possessions game_id db =
     sort_key p_number (filter (\<lambda>r. p_game_id r = game_id) (possessions db))"

text \<open>
  What \<^verbatim>\<open>str.encode("latin-1")\<close> accepts: the code points up to U+00FF. In UTF-8
  these are the one-byte characters and the two-byte characters led by \<open>0xC2\<close> or
  \<open>0xC3\<close>, so a string has a character beyond them exactly when it has a byte from
  \<open>0xC4\<close> on.
\<close>

definition latin1 :: "string \<Rightarrow> bool" where
  "latin1 s = list_all (\<lambda>c. c < CHR 0xC4) s"

text \<open>
  The body of the response and its \<^verbatim>\<open>Content-Disposition\<close> header. The response
  is built after the \<^verbatim>\<open>with\<close> block, from the game row and the rows read in it;
  its constructor raises when the header value, which holds the game's name and date,
  is not latin-1.
\<close>

record csv_response =
  csv_body :: string
  content_disposition :: string

definition export_csv :: "int \<Rightarrow> store \<Rightarrow> error + csv_response" where
  "export_csv game_id db =
     (if \<not> sqlite_int game_id then Inl OverflowError
      else
        (case select_game_by_id game_id db of
           None \<Rightarrow> Inl (HTTPException 404 ''Game not found'')
         | Some game \<Rightarrow>
             (let output =
                    concat (map writerow (csv_header # map csv_fields (select_possessions game_id db)));
                  filename =
                    map (\<lambda>c. if c = CHR '' '' then CHR ''_'' else c) (g_name game) @
                    ''_'' @ g_game_date game @ ''.csv'';
                  header = ''attachment; filename='' @ filename
              in if latin1 header
                 then Inr \<lparr>csv_body = output, content_disposition = header\<rparr>
                 else Inl UnicodeEncodeError)))"

subsection \<open>Auxiliary definitions used in the statements\<close>

text \<open>The row that \<^verbatim>\<open>create_game\<close> inserts for a client id that is not stored yet.\<close>

definition new_game_row :: "string \<Rightarrow> GameIn \<Rightarrow> store \<Rightarrow> game_row" where
  "new_game_row now game db =
     \<lparr>g_id = next_rowid (map g_id (games db)), g_client_id = gi_client_id game,
      g_name = gi_name game, g_opponent = gi_opponent game,
      g_game_date = gi_game_date game, g_created_at = now\<rparr>"

text \<open>The game of the concrete scenario of the specification.\<close>

definition home_opener :: GameIn where
  "home_opener = \<lparr>gi_client_id = ''g1'', gi_name = ''Home Opener'',
                  gi_opponent = Some ''Rivals'', gi_game_date = ''2024-01-10''\<rparr>"

text \<open>
  What \<^verbatim>\<open>add_possessions\<close> inserts, stated without the loop: of the entries of the
  list, the first one for each client id (\<open>first_per_client_id\<close>), and of those the
  ones whose client id is not in the table (\<open>new_entries\<close>).
\<close>

primrec first_per_client_id :: "PossessionIn list \<Rightarrow> PossessionIn list" where
  "first_per_client_id [] = []"
| "first_per_client_id (p # ps) =
     p # filter (\<lambda>q. pi_client_id q \<noteq> pi_client_id p) (first_per_client_id ps)"

definition new_entries :: "string list \<Rightarrow> PossessionIn list \<Rightarrow> PossessionIn list" where
  "new_entries stored ps = filter (\<lambda>p. pi_client_id p \<notin> set stored) (first_per_client_id ps)"

text \<open>
  The entries of the list whose client id is not in the table when the call starts,
  every entry counted for itself.
\<close>

definition entries_not_stored :: "string list \<Rightarrow> PossessionIn list \<Rightarrow> PossessionIn list" where
  "entries_not_stored stored ps = filter (\<lambda>p. pi_client_id p \<notin> set stored) ps"

definition stored_client_ids :: "store \<Rightarrow> string list" where
  "stored_client_ids db = map p_client_id (possessions db)"

text \<open>
  Concrete inputs: a possession like the one of the specification's scenario, with a
  chosen client id and number; a store holding the scenario's game; the same store with
  the possessions \<open>a\<close> and \<open>b\<close> of that game.
\<close>

definition shot :: "string \<Rightarrow> int \<Rightarrow> PossessionIn" where
  "shot c n = \<lparr>pi_client_id = c, pi_number = n, pi_quarter = 1, pi_paint_touch = True,
              pi_outcome = ''make'', pi_points = Some 2, pi_notes = Some '''',
              pi_timestamp = ''t1''\<rparr>"

definition one_game_store :: store where
  "one_game_store =
     \<lparr>games = [\<lparr>g_id = 1, g_client_id = ''g1'', g_name = ''Home Opener'',
                 g_opponent = Some ''Rivals'', g_game_date = ''2024-01-10'',
                 g_created_at = ''t0''\<rparr>],
      possessions = []\<rparr>"

definition store_ab :: store where
  "store_ab = one_game_store
     \<lparr>possessions := [possession_row_of 1 (shot ''a'' 1), possession_row_of 1 (shot ''b'' 2)]\<rparr>"

text \<open>
  One line of the CSV as the specification describes it: seven cells separated by
  commas and ended by CR LF, with \<^verbatim>\<open>yes\<close> or \<^verbatim>\<open>no\<close> for the paint touch and
  the empty string for missing points and for missing notes.
\<close>

definition csv_line :: "possession_row \<Rightarrow> string" where
  "csv_line row =
     join '',''
       (map csv_field
          [str_int (p_number row), str_int (p_quarter row),
           (if p_paint_touch row = 0 then ''no'' else ''yes''),
           (case p_points row of None \<Rightarrow> '''' | Some v \<Rightarrow> str_int v),
           p_outcome row,
           (case p_notes row of None \<Rightarrow> '''' | Some n \<Rightarrow> n),
           p_timestamp row]) @
     [CHR 0x0D, CHR 0x0A]"

text \<open>
  A store whose game has a name outside latin-1: \<open>LKS\<close> with a stroke through the L
  (U+0141, in UTF-8 the bytes \<open>0xC5 0x81\<close>).
\<close>

definition lks_store :: store where
  "lks_store =
     \<lparr>games = [\<lparr>g_id = 1, g_client_id = ''g1'', g_name = [CHR 0xC5, CHR 0x81] @ ''KS'',
                 g_opponent = Some ''Rivals'', g_game_date = ''2024-01-10'',
                 g_created_at = ''t0''\<rparr>],
      possessions = []\<rparr>"

text \<open>
  More concrete inputs: the sync of the specification's scenario; a sync whose second
  possession carries a number one above SQLite's largest integer; two possessions for
  the CSV export.
\<close>

definition opener_sync :: SyncPayload where
  "opener_sync = \<lparr>sp_game = home_opener, sp_possessions = [shot ''p1'' 1]\<rparr>"

definition overflow_sync :: SyncPayload where
  "overflow_sync =
     \<lparr>sp_game = home_opener,
      sp_possessions = [shot ''p1'' 1, shot ''p2'' 9223372036854775808]\<rparr>"

definition miss_first :: PossessionIn where
  "miss_first = \<lparr>pi_client_id = ''p1'', pi_number = 1, pi_quarter = 1, pi_paint_touch = True,
                 pi_outcome = ''miss'', pi_points = None, pi_notes = None,
                 pi_timestamp = ''t1''\<rparr>"

definition make_twelfth :: PossessionIn where
  "make_twelfth = \<lparr>pi_client_id = ''p12'', pi_number = 12, pi_quarter = 2, pi_paint_touch = False,
                   pi_outcome = ''make'', pi_points = Some 3, pi_notes = Some ''and one, again'',
                   pi_timestamp = ''t2''\<rparr>"

section \<open>Properties\<close>

subsection \<open>Lookups\<close>

lemma find_client_id_None:
  "find (\<lambda>g. g_client_id g = c) rows = None \<longleftrightarrow> c \<notin> set (map g_client_id rows)"
  by (auto simp: find_None_iff)

lemma find_append_new: "find P xs = None \<Longrightarrow> P x \<Longrightarrow> find P (xs @ [x]) = Some x"
  by (induction xs) (auto split: if_splits)

subsection \<open>\<^verbatim>\<open>create_game\<close>\<close>

lemma create_game_existing:
  assumes "select_game_by_client_id (gi_client_id game) db = Some existing"
  shows "create_game now game db = (db, Inr \<lparr>r_id = g_id existing, r_created = False\<rparr>)"
  using assms by (simp add: create_game_def)

lemma create_game_new:
  assumes "select_game_by_client_id (gi_client_id game) db = None"
  shows "create_game now game db =
           (db\<lparr>games := games db @ [new_game_row now game db]\<rparr>,
            Inr \<lparr>r_id = next_rowid (map g_id (games db)), r_created = True\<rparr>)"
proof -
  from assms have "gi_client_id game \<notin> set (map g_client_id (games db))"
    by (simp add: select_game_by_client_id_def find_client_id_None)
  with assms show ?thesis
    by (simp add: create_game_def insert_game_def new_game_row_def Let_def)
qed

text \<open>
  Claim C1. Two calls of \<^verbatim>\<open>create_game\<close> with the same client id (the other fields and
  the clock may differ) return the same game id. The first call reports
  \<open>created = True\<close> exactly when the client id was not stored before it, the second
  reports \<open>created = False\<close> and leaves the store as the first call left it. After a
  first call that created the game, the table holds one row with that client id.
\<close>

theorem create_game_idempotent:
  assumes same: "gi_client_id game' = gi_client_id game"
  shows "\<exists>game_id.
     snd (create_game now game db) =
        Inr \<lparr>r_id = game_id,
             r_created = (gi_client_id game \<notin> set (map g_client_id (games db)))\<rparr> \<and>
     create_game now' game' (fst (create_game now game db)) =
        (fst (create_game now game db), Inr \<lparr>r_id = game_id, r_created = False\<rparr>) \<and>
     (gi_client_id game \<notin> set (map g_client_id (games db)) \<longrightarrow>
        length (filter (\<lambda>g. g_client_id g = gi_client_id game)
                  (games (fst (create_game now game db)))) = 1)"
proof (cases "select_game_by_client_id (gi_client_id game) db")
  case None
  let ?row = "new_game_row now game db"
  let ?db1 = "db\<lparr>games := games db @ [?row]\<rparr>"
  from None have fresh: "gi_client_id game \<notin> set (map g_client_id (games db))"
    by (simp add: select_game_by_client_id_def find_client_id_None)
  have first: "create_game now game db =
      (?db1, Inr \<lparr>r_id = next_rowid (map g_id (games db)), r_created = True\<rparr>)"
    by (rule create_game_new [OF None])
  from None have "select_game_by_client_id (gi_client_id game') ?db1 = Some ?row"
    by (simp add: select_game_by_client_id_def same find_append_new new_game_row_def)
  then have second:
    "create_game now' game' ?db1 = (?db1, Inr \<lparr>r_id = g_id ?row, r_created = False\<rparr>)"
    by (rule create_game_existing)
  have one: "filter (\<lambda>g. g_client_id g = gi_client_id game) (games ?db1) = [?row]"
    using fresh by (force simp: new_game_row_def filter_empty_conv)
  show ?thesis
    using first second one fresh by (simp add: new_game_row_def)
next
  case (Some existing)
  then have stored: "gi_client_id game \<in> set (map g_client_id (games db))"
    using find_client_id_None [of "gi_client_id game" "games db"]
    by (simp add: select_game_by_client_id_def)
  have first: "create_game now game db = (db, Inr \<lparr>r_id = g_id existing, r_created = False\<rparr>)"
    by (rule create_game_existing [OF Some])
  from Some have "select_game_by_client_id (gi_client_id game') db = Some existing"
    by (simp add: same)
  then have second:
    "create_game now' game' db = (db, Inr \<lparr>r_id = g_id existing, r_created = False\<rparr>)"
    by (rule create_game_existing)
  show ?thesis using first second stored by simp
qed

theorem create_game_idempotent_witness:
  "\<exists>game_id.
     snd (create_game ''t0'' home_opener init_db) = Inr \<lparr>r_id = game_id, r_created = True\<rparr> \<and>
     create_game ''t1'' home_opener (fst (create_game ''t0'' home_opener init_db)) =
        (fst (create_game ''t0'' home_opener init_db),
         Inr \<lparr>r_id = game_id, r_created = False\<rparr>) \<and>
     length (filter (\<lambda>g. g_client_id g = ''g1'')
               (games (fst (create_game ''t0'' home_opener init_db)))) = 1"
  using create_game_idempotent [of home_opener home_opener "''t0''" init_db "''t1''"]
  by (simp add: init_db_def home_opener_def)

subsection \<open>\<^verbatim>\<open>add_possessions\<close>\<close>

lemma possession_row_of_client_id [simp]:
  "p_client_id (possession_row_of game_id p) = pi_client_id p"
  by (simp add: possession_row_of_def)

lemma new_entries_Nil [simp]: "new_entries stored [] = []"
  by (simp add: new_entries_def)

lemma new_entries_stored:
  "pi_client_id p \<in> set stored \<Longrightarrow> new_entries stored (p # ps) = new_entries stored ps"
  by (auto simp: new_entries_def intro: filter_cong)

lemma new_entries_fresh:
  "pi_client_id p \<notin> set stored \<Longrightarrow>
     new_entries stored (p # ps) = p # new_entries (stored @ [pi_client_id p]) ps"
  by (auto simp: new_entries_def intro: filter_cong)

lemma insert_loop_bindable:
  "sqlite_int game_id \<Longrightarrow> \<forall>p\<in>set ps. bindable p \<Longrightarrow>
   insert_loop game_id ps rows inserted =
     Inr (rows @ map (possession_row_of game_id) (new_entries (map p_client_id rows) ps),
          inserted + length (new_entries (map p_client_id rows) ps))"
proof (induction ps arbitrary: rows inserted)
  case Nil
  show ?case by simp
next
  case (Cons p ps)
  then have b: "sqlite_int game_id \<and> bindable p" and bs: "\<forall>p\<in>set ps. bindable p"
    by simp_all
  note gid = Cons.prems(1)
  show ?case
  proof (cases "pi_client_id p \<in> set (map p_client_id rows)")
    case True
    then have "insert_or_ignore game_id p rows = Inr (rows, 0)"
      using b by (simp add: insert_or_ignore_def)
    then show ?thesis
      using Cons.IH [OF gid bs, of rows inserted] new_entries_stored [OF True, of ps] by simp
  next
    case False
    let ?rows = "rows @ [possession_row_of game_id p]"
    have cid: "map p_client_id ?rows = map p_client_id rows @ [pi_client_id p]"
      by simp
    from False have "insert_or_ignore game_id p rows = Inr (?rows, 1)"
      using b by (simp add: insert_or_ignore_def)
    then show ?thesis
      using Cons.IH [OF gid bs, of ?rows "inserted + 1"] new_entries_fresh [OF False, of ps]
      by (simp add: cid)
  qed
qed

lemma select_game_by_id_Some:
  "game_id \<in> set (map g_id (games db)) \<Longrightarrow> \<exists>game. select_game_by_id game_id db = Some game"
  by (cases "select_game_by_id game_id db") (auto simp: select_game_by_id_def find_None_iff)

lemma select_game_by_id_None:
  "game_id \<notin> set (map g_id (games db)) \<Longrightarrow> select_game_by_id game_id db = None"
  by (auto simp: select_game_by_id_def find_None_iff)

lemma add_possessions_bindable:
  assumes game: "game_id \<in> set (map g_id (games db))"
    and gid: "sqlite_int game_id"
    and ints: "\<forall>p\<in>set ps. bindable p"
  shows "add_possessions game_id ps db =
    (db\<lparr>possessions := possessions db @
           map (possession_row_of game_id) (new_entries (stored_client_ids db) ps)\<rparr>,
     Inr (length (new_entries (stored_client_ids db) ps)))"
proof (cases "ps = []")
  case True
  then show ?thesis by (simp add: add_possessions_def)
next
  case False
  from game obtain g where "select_game_by_id game_id db = Some g"
    using select_game_by_id_Some by blast
  then show ?thesis
    using False gid insert_loop_bindable [OF gid ints, of "possessions db" 0]
    by (simp add: add_possessions_def stored_client_ids_def)
qed

lemma image_filter_other: "f ` {x \<in> A. f x \<noteq> c} = f ` A - {c}"
  by auto

lemma first_per_client_id_ids:
  "pi_client_id ` set (first_per_client_id ps) = pi_client_id ` set ps"
  by (induction ps) (auto simp: image_filter_other)

lemma first_per_client_id_distinct: "distinct (map pi_client_id (first_per_client_id ps))"
  by (induction ps) (auto simp: distinct_map_filter)

lemma first_per_client_id_id:
  "distinct (map pi_client_id ps) \<Longrightarrow> first_per_client_id ps = ps"
proof (induction ps)
  case Nil
  show ?case by simp
next
  case (Cons p ps)
  from Cons.prems have "pi_client_id p \<notin> pi_client_id ` set ps" by simp
  then have "\<forall>q\<in>set ps. pi_client_id q \<noteq> pi_client_id p" by (metis imageI)
  with Cons show ?case by (simp add: filter_id_conv)
qed

lemma new_entries_ids:
  "pi_client_id ` set (new_entries stored ps) = pi_client_id ` set ps - set stored"
proof -
  have "pi_client_id ` set (new_entries stored ps) =
          pi_client_id ` set (first_per_client_id ps) - set stored"
    unfolding new_entries_def by auto
  then show ?thesis by (simp add: first_per_client_id_ids)
qed

lemma new_entries_distinct: "distinct (map pi_client_id (new_entries stored ps))"
  unfolding new_entries_def by (rule distinct_map_filter) (rule first_per_client_id_distinct)

lemma length_new_entries:
  "length (new_entries stored ps) = card (pi_client_id ` set ps - set stored)"
  using distinct_card [OF new_entries_distinct, of stored ps] new_entries_ids [of stored ps]
  by simp

lemma new_entries_empty:
  assumes "pi_client_id ` set ps \<subseteq> set stored"
  shows "new_entries stored ps = []"
proof -
  have "pi_client_id ` set (new_entries stored ps) = {}"
    using assms by (simp add: new_entries_ids)
  then show ?thesis by simp
qed

lemma new_entries_distinct_list:
  "distinct (map pi_client_id ps) \<Longrightarrow>
     new_entries stored ps = filter (\<lambda>p. pi_client_id p \<notin> set stored) ps"
  by (simp add: new_entries_def first_per_client_id_id)

lemma find_filter_other:
  "find (\<lambda>p. f p = c) (filter (\<lambda>q. f q \<noteq> d) ps) = (if c = d then None else find (\<lambda>p. f p = c) ps)"
  by (induction ps) auto

lemma first_per_client_id_find:
  "find (\<lambda>p. pi_client_id p = c) (first_per_client_id ps) = find (\<lambda>p. pi_client_id p = c) ps"
  by (induction ps) (auto simp: find_filter_other)

lemma find_filter_keep:
  "P c \<Longrightarrow> find (\<lambda>p. f p = c) (filter (\<lambda>q. P (f q)) ps) = find (\<lambda>p. f p = c) ps"
  by (induction ps) auto

lemma new_entries_find:
  "c \<notin> set stored \<Longrightarrow>
     find (\<lambda>p. pi_client_id p = c) (new_entries stored ps) = find (\<lambda>p. pi_client_id p = c) ps"
  unfolding new_entries_def
  using find_filter_keep [of "\<lambda>c. c \<notin> set stored" c pi_client_id "first_per_client_id ps"]
  by (simp add: first_per_client_id_find)

lemma bindable_shot [simp]: "bindable (shot c n) = sqlite_int n"
  by (simp add: bindable_def shot_def sqlite_int_def)

lemma shot_client_id [simp]: "pi_client_id (shot c n) = c"
  by (simp add: shot_def)

text \<open>
  Claim C2. For an existing game, a game id and possession integers that SQLite can
  store, \<^verbatim>\<open>add_possessions\<close> returns as \<open>inserted\<close> the number of distinct client ids
  of the list that were not stored yet, and the same call repeated on the resulting store
  returns \<open>inserted = 0\<close> and changes nothing. When no client id occurs twice in the list
  that number is the number of entries whose client id was not stored.
\<close>

theorem add_possessions_twice:
  assumes game: "game_id \<in> set (map g_id (games db))"
    and gid: "sqlite_int game_id"
    and ints: "\<forall>p\<in>set ps. bindable p"
  shows "\<exists>db1.
     add_possessions game_id ps db =
       (db1, Inr (card (pi_client_id ` set ps - set (stored_client_ids db)))) \<and>
     add_possessions game_id ps db1 = (db1, Inr 0) \<and>
     (distinct (map pi_client_id ps) \<longrightarrow>
        card (pi_client_id ` set ps - set (stored_client_ids db)) =
        length (entries_not_stored (stored_client_ids db) ps))"
proof -
  let ?new = "new_entries (stored_client_ids db) ps"
  let ?db1 = "db\<lparr>possessions := possessions db @ map (possession_row_of game_id) ?new\<rparr>"
  have first: "add_possessions game_id ps db = (?db1, Inr (length ?new))"
    by (rule add_possessions_bindable [OF game gid ints])
  have game1: "game_id \<in> set (map g_id (games ?db1))"
    using game by simp
  have "set (stored_client_ids ?db1) = set (stored_client_ids db) \<union> pi_client_id ` set ?new"
    by (simp add: stored_client_ids_def image_image)
  then have "pi_client_id ` set ps \<subseteq> set (stored_client_ids ?db1)"
    by (simp add: new_entries_ids)
  then have none: "new_entries (stored_client_ids ?db1) ps = []"
    by (rule new_entries_empty)
  have second: "add_possessions game_id ps ?db1 = (?db1, Inr 0)"
    using add_possessions_bindable [OF game1 gid ints] none by simp
  have "distinct (map pi_client_id ps) \<longrightarrow>
      length ?new = length (entries_not_stored (stored_client_ids db) ps)"
    by (simp add: new_entries_distinct_list entries_not_stored_def)
  with first second show ?thesis
    by (simp add: length_new_entries)
qed

text \<open>
  The theorem at a store with one game and the list \<open>[a, b]\<close>: 2, then 0.
\<close>

theorem add_possessions_twice_witness:
  "\<exists>db1.
     add_possessions 1 [shot ''a'' 1, shot ''b'' 2] one_game_store = (db1, Inr 2) \<and>
     add_possessions 1 [shot ''a'' 1, shot ''b'' 2] db1 = (db1, Inr 0)"
  using add_possessions_twice [of 1 one_game_store "[shot ''a'' 1, shot ''b'' 2]"]
  by (auto simp: one_game_store_def sqlite_int_def stored_client_ids_def numeral_2_eq_2)

text \<open>
  Claim C2 as stated fails for a list that repeats a client id: of two entries with the
  new client id \<open>c\<close>, both have a client id that was not stored, and one is inserted.
\<close>

theorem add_possessions_count_counterexample:
  "snd (add_possessions 1 [shot ''c'' 3, shot ''c'' 4] one_game_store) = Inr 1 \<and>
   length (entries_not_stored (stored_client_ids one_game_store) [shot ''c'' 3, shot ''c'' 4]) = 2"
  by (simp add: add_possessions_def select_game_by_id_def one_game_store_def sqlite_int_def
      insert_or_ignore_def entries_not_stored_def stored_client_ids_def)

text \<open>
  Claim C3. For a game id that references no game, \<^verbatim>\<open>add_possessions\<close> leaves the
  store as it is. With a non-empty list (and a game id that SQLite can bind) it raises
  the 404 \<open>Game not found\<close>; with the empty list it returns \<open>inserted = 0\<close>, because the
  check for the empty list comes before the lookup of the game.
\<close>

theorem add_possessions_not_found:
  assumes "game_id \<notin> set (map g_id (games db))"
  shows "fst (add_possessions game_id ps db) = db \<and>
         (ps \<noteq> [] \<and> sqlite_int game_id \<longrightarrow>
            snd (add_possessions game_id ps db) = Inl (HTTPException 404 ''Game not found'')) \<and>
         (ps = [] \<longrightarrow> snd (add_possessions game_id ps db) = Inr 0)"
  using select_game_by_id_None [OF assms] by (simp add: add_possessions_def)

text \<open>
  The theorem at game id 7, which the store with the single game 1 does not hold.
\<close>

theorem add_possessions_not_found_witness:
  "add_possessions 7 [shot ''a'' 1] one_game_store =
     (one_game_store, Inl (HTTPException 404 ''Game not found''))"
  using add_possessions_not_found [of 7 one_game_store "[shot ''a'' 1]"]
  by (simp add: one_game_store_def sqlite_int_def prod_eq_iff)

text \<open>
  Claim C3 as stated fails for the empty list: no game has id 7, and the call returns
  \<open>inserted = 0\<close> instead of raising.
\<close>

theorem add_possessions_empty_list_counterexample:
  "select_game_by_id 7 one_game_store = None \<and>
   add_possessions 7 [] one_game_store = (one_game_store, Inr 0)"
  by (simp add: add_possessions_def select_game_by_id_def one_game_store_def)

text \<open>
  Claim C4. For an existing game, a game id and possession integers that SQLite can
  store, \<^verbatim>\<open>add_possessions\<close> appends one row for each client id of the list that
  was not stored, built from the first entry that carries it, keeps every stored row,
  raises nothing, and returns the number of rows it appended. When no client id occurs
  twice in the list, the appended rows are those of the entries whose client id was not
  stored, in the order of the list.
\<close>

theorem add_possessions_partial_overlap:
  assumes game: "game_id \<in> set (map g_id (games db))"
    and gid: "sqlite_int game_id"
    and ints: "\<forall>p\<in>set ps. bindable p"
  shows "(let new = new_entries (stored_client_ids db) ps in
     add_possessions game_id ps db =
       (db\<lparr>possessions := possessions db @ map (possession_row_of game_id) new\<rparr>,
        Inr (length new)) \<and>
     pi_client_id ` set new = pi_client_id ` set ps - set (stored_client_ids db) \<and>
     distinct (map pi_client_id new) \<and>
     (distinct (map pi_client_id ps) \<longrightarrow> new = entries_not_stored (stored_client_ids db) ps))"
  unfolding Let_def
  using add_possessions_bindable [OF game gid ints]
    new_entries_ids [of "stored_client_ids db" ps]
    new_entries_distinct [of "stored_client_ids db" ps]
    new_entries_distinct_list [of ps "stored_client_ids db"]
  by (simp add: entries_not_stored_def)

text \<open>
  The scenario of the specification: with \<open>a\<close> and \<open>b\<close> stored, submitting
  \<open>[a, b, c]\<close> inserts the row of \<open>c\<close> and returns 1.
\<close>

theorem add_possessions_partial_overlap_witness:
  "add_possessions 1 [shot ''a'' 1, shot ''b'' 2, shot ''c'' 3] store_ab =
     (store_ab\<lparr>possessions := possessions store_ab @ [possession_row_of 1 (shot ''c'' 3)]\<rparr>,
      Inr 1)"
  using add_possessions_partial_overlap
    [of 1 store_ab "[shot ''a'' 1, shot ''b'' 2, shot ''c'' 3]"]
  by (simp add: store_ab_def one_game_store_def sqlite_int_def stored_client_ids_def
      new_entries_def Let_def)

text \<open>
  Claim C4 as stated fails for a list that repeats a new client id: with \<open>a\<close> stored,
  the entries of \<open>[a, c, c']\<close> whose client id is new are \<open>c\<close> and \<open>c'\<close> (same client
  id, different number), and the call inserts the row of \<open>c\<close> alone.
\<close>

theorem add_possessions_new_entries_counterexample:
  "entries_not_stored (stored_client_ids store_ab) [shot ''a'' 1, shot ''c'' 3, shot ''c'' 4] =
     [shot ''c'' 3, shot ''c'' 4] \<and>
   add_possessions 1 [shot ''a'' 1, shot ''c'' 3, shot ''c'' 4] store_ab =
     (store_ab\<lparr>possessions := possessions store_ab @ [possession_row_of 1 (shot ''c'' 3)]\<rparr>,
      Inr 1)"
  by (simp add: add_possessions_def select_game_by_id_def store_ab_def one_game_store_def
      sqlite_int_def insert_or_ignore_def entries_not_stored_def stored_client_ids_def)

lemma filter_distinct_key:
  "distinct (map f xs) \<Longrightarrow> find (\<lambda>x. f x = c) xs = Some y \<Longrightarrow> filter (\<lambda>x. f x = c) xs = [y]"
proof (induction xs)
  case Nil
  then show ?case by simp
next
  case (Cons x xs)
  show ?case
  proof (cases "f x = c")
    case True
    with Cons.prems have "c \<notin> f ` set xs" and "y = x" by auto
    then have "filter (\<lambda>x. f x = c) xs = []"
      by (metis (mono_tags, lifting) filter_False imageI)
    with True \<open>y = x\<close> show ?thesis by simp
  next
    case False
    with Cons show ?thesis by simp
  qed
qed

lemma find_hd_filter: "filter P xs = y # ys \<Longrightarrow> find P xs = Some y"
  by (induction xs) (auto split: if_splits)

text \<open>
  Claim C10. For an existing game (game id and possession integers that SQLite can
  store) and a client id \<open>c\<close> that occurs in the list and was not stored: afterwards
  the table holds one row with client id \<open>c\<close>, the row of the first entry of the list
  that carries \<open>c\<close>; the call raises nothing, and \<open>inserted\<close> counts every new client id
  once.
\<close>

theorem add_possessions_duplicates_in_list:
  assumes game: "game_id \<in> set (map g_id (games db))"
    and gid: "sqlite_int game_id"
    and ints: "\<forall>p\<in>set ps. bindable p"
    and listed: "c \<in> pi_client_id ` set ps"
    and fresh: "c \<notin> set (stored_client_ids db)"
  shows "\<exists>first rest.
     filter (\<lambda>p. pi_client_id p = c) ps = first # rest \<and>
     filter (\<lambda>r. p_client_id r = c) (possessions (fst (add_possessions game_id ps db))) =
       [possession_row_of game_id first] \<and>
     snd (add_possessions game_id ps db) =
       Inr (card (pi_client_id ` set ps - set (stored_client_ids db)))"
proof -
  let ?new = "new_entries (stored_client_ids db) ps"
  from listed obtain first rest where fr: "filter (\<lambda>p. pi_client_id p = c) ps = first # rest"
    by (cases "filter (\<lambda>p. pi_client_id p = c) ps") (auto simp: filter_empty_conv)
  then have "find (\<lambda>p. pi_client_id p = c) ps = Some first"
    by (rule find_hd_filter)
  then have "find (\<lambda>p. pi_client_id p = c) ?new = Some first"
    by (simp add: new_entries_find [OF fresh])
  then have new: "filter (\<lambda>p. pi_client_id p = c) ?new = [first]"
    by (rule filter_distinct_key [OF new_entries_distinct])
  have old: "filter (\<lambda>r. p_client_id r = c) (possessions db) = []"
    using fresh by (auto simp: stored_client_ids_def filter_empty_conv)
  have "filter (\<lambda>r. p_client_id r = c) (map (possession_row_of game_id) ?new) =
          map (possession_row_of game_id) (filter (\<lambda>p. pi_client_id p = c) ?new)"
    by (simp add: filter_map comp_def)
  with new old add_possessions_bindable [OF game gid ints] fr show ?thesis
    by (simp add: length_new_entries)
qed

text \<open>
  The theorem at the list \<open>[c, a, c']\<close>, where \<open>c\<close> and \<open>c'\<close> share a client id: the
  row of \<open>c\<close> is stored and the count is 2.
\<close>

theorem add_possessions_duplicates_in_list_witness:
  "filter (\<lambda>r. p_client_id r = ''c'')
     (possessions (fst (add_possessions 1 [shot ''c'' 3, shot ''a'' 1, shot ''c'' 4] one_game_store))) =
     [possession_row_of 1 (shot ''c'' 3)] \<and>
   snd (add_possessions 1 [shot ''c'' 3, shot ''a'' 1, shot ''c'' 4] one_game_store) = Inr 2"
  using add_possessions_duplicates_in_list
    [of 1 one_game_store "[shot ''c'' 3, shot ''a'' 1, shot ''c'' 4]" "''c''"]
  by (auto simp: one_game_store_def sqlite_int_def stored_client_ids_def numeral_2_eq_2
      card_insert_if)

text \<open>
  Claim C10 as stated fails when a later duplicate carries a number SQLite cannot
  store: of two entries with the new client id \<open>c\<close>, the second is not skipped; binding
  its number \<open>2\<^sup>6\<^sup>3\<close> raises before the UNIQUE constraint is looked at, and the
  row of the first is rolled back.
\<close>

theorem add_possessions_duplicate_overflow_counterexample:
  "add_possessions 1 [shot ''c'' 3, shot ''c'' 9223372036854775808] one_game_store =
     (one_game_store, Inl OverflowError)"
  by (simp add: add_possessions_def sqlite_int_def select_game_by_id_def
      one_game_store_def insert_or_ignore_def)

subsection \<open>\<^verbatim>\<open>sync\<close>\<close>

lemma create_game_succeeds:
  "\<exists>db1 response. create_game now game db = (db1, Inr response)"
  by (cases "select_game_by_client_id (gi_client_id game) db")
    (simp_all add: create_game_new create_game_existing)

lemma create_game_possessions:
  "possessions (fst (create_game now game db)) = possessions db"
  by (cases "select_game_by_client_id (gi_client_id game) db")
    (simp_all add: create_game_new create_game_existing)

lemma create_game_stores_client_id:
  "gi_client_id game \<in> set (map g_client_id (games (fst (create_game now game db))))"
proof (cases "select_game_by_client_id (gi_client_id game) db")
  case None
  then show ?thesis by (simp add: create_game_new new_game_row_def)
next
  case (Some existing)
  then have "gi_client_id game \<in> set (map g_client_id (games db))"
    using find_client_id_None [of "gi_client_id game" "games db"]
    by (simp add: select_game_by_client_id_def)
  with Some show ?thesis by (simp add: create_game_existing)
qed

lemma add_possessions_error_store:
  "snd (add_possessions game_id ps db) = Inl e \<Longrightarrow> fst (add_possessions game_id ps db) = db"
  by (auto simp: add_possessions_def split: if_splits option.splits sum.splits prod.splits)

lemma sync_unfold:
  assumes "create_game now (sp_game payload) db = (db1, Inr response)"
  shows "sync now payload db =
     (case add_possessions (r_id response) (sp_possessions payload) db1 of
        (db2, Inl e) \<Rightarrow> (db2, Inl e)
      | (db2, Inr inserted) \<Rightarrow>
          (db2, Inr \<lparr>s_game_id = r_id response, s_created = r_created response,
                     s_inserted_possessions = inserted\<rparr>))"
  using assms by (simp add: sync_def Let_def)

lemma create_game_init_db:
  "create_game now game init_db =
     (init_db\<lparr>games := [new_game_row now game init_db]\<rparr>, Inr \<lparr>r_id = 1, r_created = True\<rparr>)"
  using create_game_new [of game init_db now]
  by (simp add: select_game_by_client_id_def init_db_def next_rowid_def)

text \<open>
  Claim C7. \<^verbatim>\<open>sync\<close> is \<^verbatim>\<open>create_game\<close> followed by \<^verbatim>\<open>add_possessions\<close> on the
  id that \<^verbatim>\<open>create_game\<close> returned, in the store that it left: when both succeed, the
  response carries that id, the \<open>created\<close> flag of the first and the \<open>inserted\<close> count of
  the second. On the fresh store, the sync of any game with one possession (whose
  integers SQLite can store) returns \<open>created = True\<close> and one inserted possession, and
  the same sync repeated returns the same game id, \<open>created = False\<close> and no inserted
  possession, leaving the store unchanged.
\<close>

theorem sync_composes:
  assumes b: "bindable p"
  shows "(\<exists>db1 response.
      create_game now (sp_game payload) db = (db1, Inr response) \<and>
      sync now payload db =
        (fst (add_possessions (r_id response) (sp_possessions payload) db1),
         map_sum id
           (\<lambda>inserted. \<lparr>s_game_id = r_id response, s_created = r_created response,
                        s_inserted_possessions = inserted\<rparr>)
           (snd (add_possessions (r_id response) (sp_possessions payload) db1)))) \<and>
   (\<exists>db1 game_id.
      sync now' \<lparr>sp_game = game, sp_possessions = [p]\<rparr> init_db =
        (db1, Inr \<lparr>s_game_id = game_id, s_created = True, s_inserted_possessions = 1\<rparr>) \<and>
      sync now'' \<lparr>sp_game = game, sp_possessions = [p]\<rparr> db1 =
        (db1, Inr \<lparr>s_game_id = game_id, s_created = False, s_inserted_possessions = 0\<rparr>))"
proof (intro conjI)
  obtain db1 response where cg: "create_game now (sp_game payload) db = (db1, Inr response)"
    using create_game_succeeds by blast
  have "sync now payload db =
        (fst (add_possessions (r_id response) (sp_possessions payload) db1),
         map_sum id
           (\<lambda>inserted. \<lparr>s_game_id = r_id response, s_created = r_created response,
                        s_inserted_possessions = inserted\<rparr>)
           (snd (add_possessions (r_id response) (sp_possessions payload) db1)))"
    using sync_unfold [OF cg] by (simp split: prod.splits sum.splits)
  with cg show "\<exists>db1 response.
      create_game now (sp_game payload) db = (db1, Inr response) \<and>
      sync now payload db =
        (fst (add_possessions (r_id response) (sp_possessions payload) db1),
         map_sum id
           (\<lambda>inserted. \<lparr>s_game_id = r_id response, s_created = r_created response,
                        s_inserted_possessions = inserted\<rparr>)
           (snd (add_possessions (r_id response) (sp_possessions payload) db1)))"
    by blast
next
  let ?payload = "\<lparr>sp_game = game, sp_possessions = [p]\<rparr>"
  let ?row = "new_game_row now' game init_db"
  let ?db0 = "init_db\<lparr>games := [?row]\<rparr>"
  let ?db1 = "?db0\<lparr>possessions := [possession_row_of 1 p]\<rparr>"
  have id1: "g_id ?row = 1"
    by (simp add: new_game_row_def init_db_def next_rowid_def)
  have game0: "(1::int) \<in> set (map g_id (games ?db0))"
    by (simp add: id1)
  have ints: "\<forall>q\<in>set [p]. bindable q"
    using b by simp
  have one: "sqlite_int 1"
    by (simp add: sqlite_int_def)
  have add1: "add_possessions 1 [p] ?db0 = (?db1, Inr 1)"
    using add_possessions_bindable [OF game0 one ints]
    by (simp add: stored_client_ids_def init_db_def new_entries_def)
  have first: "sync now' ?payload init_db =
      (?db1, Inr \<lparr>s_game_id = 1, s_created = True, s_inserted_possessions = 1\<rparr>)"
    using sync_unfold [of now' ?payload init_db ?db0 "\<lparr>r_id = 1, r_created = True\<rparr>"]
      create_game_init_db [of now' game] add1
    by simp
  have "select_game_by_client_id (gi_client_id game) ?db1 = Some ?row"
    by (simp add: select_game_by_client_id_def new_game_row_def)
  then have cg2: "create_game now'' game ?db1 = (?db1, Inr \<lparr>r_id = 1, r_created = False\<rparr>)"
    using create_game_existing [of game ?db1 ?row now''] by (simp add: id1)
  have game1: "(1::int) \<in> set (map g_id (games ?db1))"
    by (simp add: id1)
  have add2: "add_possessions 1 [p] ?db1 = (?db1, Inr 0)"
    using add_possessions_bindable [OF game1 one ints]
    by (simp add: stored_client_ids_def init_db_def new_entries_def)
  have second: "sync now'' ?payload ?db1 =
      (?db1, Inr \<lparr>s_game_id = 1, s_created = False, s_inserted_possessions = 0\<rparr>)"
    using sync_unfold [of now'' ?payload ?db1 ?db1 "\<lparr>r_id = 1, r_created = False\<rparr>"] cg2 add2
    by simp
  from first second show "\<exists>db1 game_id.
         sync now' ?payload init_db =
           (db1, Inr \<lparr>s_game_id = game_id, s_created = True, s_inserted_possessions = 1\<rparr>) \<and>
         sync now'' ?payload db1 =
           (db1, Inr \<lparr>s_game_id = game_id, s_created = False, s_inserted_possessions = 0\<rparr>)"
    by blast
qed

text \<open>
  The scenario of the specification: game \<open>g1\<close> with possession \<open>p1\<close>, synced twice.
\<close>

theorem sync_composes_witness:
  "\<exists>db1 game_id.
     sync ''t0'' opener_sync init_db =
       (db1, Inr \<lparr>s_game_id = game_id, s_created = True, s_inserted_possessions = 1\<rparr>) \<and>
     sync ''t9'' opener_sync db1 =
       (db1, Inr \<lparr>s_game_id = game_id, s_created = False, s_inserted_possessions = 0\<rparr>)"
  using sync_composes [of "shot ''p1'' 1" "''t0''" opener_sync init_db "''t0''" home_opener "''t9''"]
  by (simp add: opener_sync_def sqlite_int_def)

text \<open>
  Claim C7 as stated fails on the fresh store for a possession whose number SQLite
  cannot store: the sync of game \<open>g1\<close> with the one new possession numbered
  \<open>2\<^sup>6\<^sup>3\<close> creates the game and raises instead of returning a response.
\<close>

theorem sync_overflow_counterexample:
  "sync ''t0'' \<lparr>sp_game = home_opener, sp_possessions = [shot ''p1'' 9223372036854775808]\<rparr>
     init_db = (one_game_store, Inl OverflowError)"
proof -
  have cg: "create_game ''t0'' home_opener init_db =
      (one_game_store, Inr \<lparr>r_id = 1, r_created = True\<rparr>)"
    using create_game_init_db [of "''t0''" home_opener]
    by (simp add: new_game_row_def init_db_def next_rowid_def home_opener_def
        one_game_store_def)
  have ap: "add_possessions 1 [shot ''p1'' 9223372036854775808] one_game_store =
      (one_game_store, Inl OverflowError)"
    by (simp add: add_possessions_def sqlite_int_def select_game_by_id_def
        one_game_store_def insert_or_ignore_def)
  show ?thesis
    using cg ap by (simp add: sync_def)
qed

lemma insert_loop_error:
  "insert_loop game_id ps rows inserted = Inl e \<Longrightarrow> e = OverflowError"
proof (induction ps arbitrary: rows inserted)
  case Nil
  then show ?case by simp
next
  case (Cons p ps)
  show ?case
  proof (cases "insert_or_ignore game_id p rows")
    case (Inl e')
    with Cons.prems show ?thesis
      by (simp add: insert_or_ignore_def split: if_splits)
  next
    case (Inr r)
    with Cons show ?thesis
      by (cases r) (simp split: if_splits)
  qed
qed

lemma add_possessions_error:
  assumes "snd (add_possessions game_id ps db) = Inl e"
    and "game_id \<in> set (map g_id (games db))"
  shows "e = OverflowError"
proof -
  from assms(2) obtain g where "select_game_by_id game_id db = Some g"
    using select_game_by_id_Some by blast
  with assms(1) show ?thesis
    by (auto simp: add_possessions_def dest: insert_loop_error
        split: if_splits sum.splits prod.splits)
qed

lemma create_game_id_stored:
  "create_game now game db = (db1, Inr response) \<Longrightarrow> r_id response \<in> set (map g_id (games db1))"
proof (cases "select_game_by_client_id (gi_client_id game) db")
  case None
  assume "create_game now game db = (db1, Inr response)"
  with None show ?thesis
    by (auto simp: create_game_new new_game_row_def)
next
  case (Some existing)
  then have "existing \<in> set (games db)"
    by (auto simp: select_game_by_client_id_def find_Some_iff)
  moreover assume "create_game now game db = (db1, Inr response)"
  ultimately show ?thesis
    using Some by (auto simp: create_game_existing)
qed

text \<open>
  A \<^verbatim>\<open>sync\<close> never fails with the 404 of \<^verbatim>\<open>add_possessions\<close>, as the game it
  names was stored by \<^verbatim>\<open>create_game\<close>: what is left is the failure to bind an integer.
\<close>

lemma sync_error:
  assumes "snd (sync now payload db) = Inl e"
  shows "e = OverflowError"
proof -
  obtain db1 response where cg: "create_game now (sp_game payload) db = (db1, Inr response)"
    using create_game_succeeds by blast
  have "snd (add_possessions (r_id response) (sp_possessions payload) db1) = Inl e"
    using assms sync_unfold [OF cg] by (simp split: prod.splits sum.splits)
  then show ?thesis
    using create_game_id_stored [OF cg] by (rule add_possessions_error)
qed

text \<open>
  Claim C8. \<^verbatim>\<open>create_game\<close> never fails on its own, so a \<^verbatim>\<open>sync\<close> that fails has
  failed in \<^verbatim>\<open>add_possessions\<close>. The store it leaves is the store that
  \<^verbatim>\<open>create_game\<close> committed: it holds a game with the payload's client id (the newly
  inserted row when the client id was new), and no possession of the failed call.
\<close>

theorem sync_not_atomic:
  assumes failed: "snd (sync now payload db) = Inl e"
  shows "fst (sync now payload db) = fst (create_game now (sp_game payload) db) \<and>
         gi_client_id (sp_game payload) \<in> set (map g_client_id (games (fst (sync now payload db)))) \<and>
         possessions (fst (sync now payload db)) = possessions db \<and>
         (gi_client_id (sp_game payload) \<notin> set (map g_client_id (games db)) \<longrightarrow>
            games (fst (sync now payload db)) =
              games db @ [new_game_row now (sp_game payload) db])"
proof -
  obtain db1 response where cg: "create_game now (sp_game payload) db = (db1, Inr response)"
    using create_game_succeeds by blast
  obtain db2 r where ap:
    "add_possessions (r_id response) (sp_possessions payload) db1 = (db2, r)"
    by (cases "add_possessions (r_id response) (sp_possessions payload) db1")
  from failed have r: "r = Inl e"
    using sync_unfold [OF cg] ap by (cases r) simp_all
  then have "db2 = db1"
    using add_possessions_error_store [of "r_id response" "sp_possessions payload" db1 e] ap
    by simp
  then have store: "fst (sync now payload db) = db1"
    using sync_unfold [OF cg] ap r by simp
  have db1: "db1 = fst (create_game now (sp_game payload) db)"
    using cg by simp
  have new: "gi_client_id (sp_game payload) \<notin> set (map g_client_id (games db)) \<longrightarrow>
      games db1 = games db @ [new_game_row now (sp_game payload) db]"
    using create_game_new [of "sp_game payload" db now] cg
    by (simp add: select_game_by_client_id_def find_client_id_None)
  show ?thesis
    using store db1 new create_game_stores_client_id [of "sp_game payload" now db]
      create_game_possessions [of now "sp_game payload" db]
    by simp
qed

text \<open>
  A sync that fails: its second possession has the number \<open>2\<^sup>6\<^sup>3\<close>, which
  \<^verbatim>\<open>conn.execute\<close> refuses to bind. The game row is committed, and the first
  possession, inserted before the failure, is rolled back.
\<close>

theorem sync_not_atomic_witness:
  "sync ''t0'' overflow_sync init_db = (one_game_store, Inl OverflowError)"
proof -
  have cg: "create_game ''t0'' (sp_game overflow_sync) init_db =
      (one_game_store, Inr \<lparr>r_id = 1, r_created = True\<rparr>)"
    using create_game_init_db [of "''t0''" home_opener]
    by (simp add: new_game_row_def init_db_def next_rowid_def home_opener_def
        one_game_store_def overflow_sync_def)
  have ap: "add_possessions 1 (sp_possessions overflow_sync) one_game_store =
      (one_game_store, Inl OverflowError)"
    by (simp add: overflow_sync_def add_possessions_def sqlite_int_def select_game_by_id_def
        one_game_store_def insert_or_ignore_def)
  have failed: "snd (sync ''t0'' overflow_sync init_db) = Inl OverflowError"
    using sync_unfold [OF cg] ap by simp
  show ?thesis
    using sync_not_atomic [OF failed] failed cg
    by (simp add: prod_eq_iff)
qed

subsection \<open>Two concurrent requests\<close>

lemma create_game_steps:
  "interleave [First, First] (now, game) other (At_select, pc, db) =
     (Returned (snd (create_game now game db)), pc, fst (create_game now game db))"
  by (simp add: create_game_step_def create_game_def split: option.splits sum.splits)

text \<open>
  Claim C9. Two requests for the same game on the empty store. When both run their
  SELECT before either runs its INSERT, the second INSERT is rejected by the UNIQUE
  constraint and the second request ends with \<open>IntegrityError\<close>, where the claim asks
  for the id of the first with \<open>created = False\<close>; that is what it gets when the requests
  run one after the other. The INSERT OR IGNORE of \<^verbatim>\<open>add_possessions\<close> never
  raises \<open>IntegrityError\<close>, whatever the table holds.
\<close>

theorem create_game_race:
  "interleave [First, Second, First, Second] (now, game) (now', game)
       (At_select, At_select, init_db) =
     (Returned (Inr \<lparr>r_id = 1, r_created = True\<rparr>), Returned (Inl IntegrityError),
      init_db\<lparr>games := [new_game_row now game init_db]\<rparr>) \<and>
   interleave [First, First, Second, Second] (now, game) (now', game)
       (At_select, At_select, init_db) =
     (Returned (Inr \<lparr>r_id = 1, r_created = True\<rparr>),
      Returned (Inr \<lparr>r_id = 1, r_created = False\<rparr>),
      init_db\<lparr>games := [new_game_row now game init_db]\<rparr>) \<and>
   insert_or_ignore game_id p rows \<noteq> Inl IntegrityError"
  by (simp add: create_game_step_def select_game_by_client_id_def insert_game_def
      init_db_def next_rowid_def new_game_row_def insert_or_ignore_def)

subsection \<open>\<^verbatim>\<open>list_games\<close> and \<^verbatim>\<open>export_csv\<close>\<close>

text \<open>
  Claim C6. \<^verbatim>\<open>list_games\<close> returns every row of \<^verbatim>\<open>games\<close> once, and in the
  returned list no row has a smaller \<^verbatim>\<open>created_at\<close> than a row after it.
\<close>

theorem list_games_order:
  "mset (list_games db) = mset (games db) \<and>
   sorted_wrt (\<lambda>g h. g_created_at g \<ge> g_created_at h) (list_games db)"
proof -
  have "sorted (map g_created_at (sort_key g_created_at (rev (games db))))"
    by (rule sorted_sort_key)
  then have "sorted_wrt (\<lambda>g h. g_created_at g \<le> g_created_at h)
      (sort_key g_created_at (rev (games db)))"
    by (simp add: sorted_map)
  then show ?thesis
    by (simp add: list_games_def sorted_wrt_rev)
qed

lemma csv_fields_line: "writerow (csv_fields row) = csv_line row"
  by (cases "p_notes row") (auto simp: csv_fields_def csv_line_def writerow_def)

lemma writerow_header:
  "writerow csv_header =
     ''possession_number,quarter,paint_touch,points,outcome,notes,timestamp'' @
     [CHR 0x0D, CHR 0x0A]"
  by (simp add: writerow_def csv_header_def csv_field_def quotechar_def)

lemma latin1_append: "latin1 (xs @ ys) \<longleftrightarrow> latin1 xs \<and> latin1 ys"
  by (simp add: latin1_def)

lemma latin1_underscores:
  "latin1 (map (\<lambda>c. if c = CHR '' '' then CHR ''_'' else c) s) \<longleftrightarrow> latin1 s"
  by (induction s) (simp_all add: latin1_def less_char_def)

lemma latin1_header:
  "latin1 (''attachment; filename='' @
           map (\<lambda>c. if c = CHR '' '' then CHR ''_'' else c) name @ ''_'' @ date @ ''.csv'') \<longleftrightarrow>
   latin1 name \<and> latin1 date"
  unfolding latin1_append latin1_underscores by (simp add: latin1_def less_char_def)

text \<open>
  Claim C5. For an existing game whose name and date are latin-1 (and whose id SQLite
  can bind), \<^verbatim>\<open>export_csv\<close> returns a body that starts with the header line
  \<^verbatim>\<open>possession_number,quarter,paint_touch,points,outcome,notes,timestamp\<close>, ended by
  CR LF, followed by one line (\<open>csv_line\<close>) for each stored possession of that game, in
  ascending order of \<^verbatim>\<open>number\<close>. The line of a possession as
  \<^verbatim>\<open>add_possessions\<close> stores it shows \<^verbatim>\<open>yes\<close> or \<^verbatim>\<open>no\<close> for its paint touch,
  and the empty string for missing points and for missing notes.
\<close>

theorem export_csv_format:
  assumes gid: "sqlite_int game_id"
    and game: "select_game_by_id game_id db = Some game"
    and name: "latin1 (g_name game)"
    and date: "latin1 (g_game_date game)"
  shows "\<exists>response.
     export_csv game_id db = Inr response \<and>
     csv_body response =
       ''possession_number,quarter,paint_touch,points,outcome,notes,timestamp'' @
       [CHR 0x0D, CHR 0x0A] @
       concat (map csv_line (select_possessions game_id db)) \<and>
     mset (select_possessions game_id db) =
       mset (filter (\<lambda>r. p_game_id r = game_id) (possessions db)) \<and>
     sorted (map p_number (select_possessions game_id db)) \<and>
     csv_line (possession_row_of game_id' p) =
       join '',''
         (map csv_field
            [str_int (pi_number p), str_int (pi_quarter p),
             (if pi_paint_touch p then ''yes'' else ''no''),
             (case pi_points p of None \<Rightarrow> '''' | Some v \<Rightarrow> str_int v),
             pi_outcome p,
             (case pi_notes p of None \<Rightarrow> '''' | Some n \<Rightarrow> n),
             pi_timestamp p]) @
       [CHR 0x0D, CHR 0x0A]"
proof -
  have header: "latin1 (''attachment; filename='' @
      map (\<lambda>c. if c = CHR '' '' then CHR ''_'' else c) (g_name game) @
      ''_'' @ g_game_date game @ ''.csv'')"
    using name date by (simp only: latin1_header)
  have export: "export_csv game_id db =
      Inr \<lparr>csv_body =
             ''possession_number,quarter,paint_touch,points,outcome,notes,timestamp'' @
             [CHR 0x0D, CHR 0x0A] @
             concat (map csv_line (select_possessions game_id db)),
           content_disposition =
             ''attachment; filename='' @
             map (\<lambda>c. if c = CHR '' '' then CHR ''_'' else c) (g_name game) @
             ''_'' @ g_game_date game @ ''.csv''\<rparr>"
    using gid game header
    by (simp add: export_csv_def Let_def writerow_header csv_fields_line comp_def)
  have rows: "mset (select_possessions game_id db) =
       mset (filter (\<lambda>r. p_game_id r = game_id) (possessions db)) \<and>
     sorted (map p_number (select_possessions game_id db))"
    by (simp add: select_possessions_def)
  have line: "csv_line (possession_row_of game_id' p) =
       join '',''
         (map csv_field
            [str_int (pi_number p), str_int (pi_quarter p),
             (if pi_paint_touch p then ''yes'' else ''no''),
             (case pi_points p of None \<Rightarrow> '''' | Some v \<Rightarrow> str_int v),
             pi_outcome p,
             (case pi_notes p of None \<Rightarrow> '''' | Some n \<Rightarrow> n),
             pi_timestamp p]) @
       [CHR 0x0D, CHR 0x0A]"
    by (simp add: csv_line_def possession_row_of_def)
  from export rows line show ?thesis by simp
qed

lemma str_nat_digit: "n < 10 \<Longrightarrow> str_nat n = [''0123456789'' ! n]"
  by (simp add: str_nat.simps)

lemma str_int_1: "str_int 1 = ''1''"
  by (simp add: str_int_def str_nat_digit)

lemma str_int_2: "str_int 2 = ''2''"
  by (simp add: str_int_def str_nat_digit)

lemma str_int_3: "str_int 3 = ''3''"
  by (simp add: str_int_def str_nat_digit)

lemma str_int_12: "str_int 12 = ''12''"
  by (simp add: str_int_def str_nat.simps [of 12] str_nat_digit)

text \<open>
  Two possessions inserted as 12, then 1: the export lists 1 (paint touch, no points, no
  notes), then 12 (whose notes contain a comma, so the writer quotes them).
\<close>

theorem export_csv_format_witness:
  "\<exists>response.
     export_csv 1 (fst (add_possessions 1 [make_twelfth, miss_first] one_game_store)) =
       Inr response \<and>
     csv_body response =
       ''possession_number,quarter,paint_touch,points,outcome,notes,timestamp'' @
       [CHR 0x0D, CHR 0x0A] @
       ''1,1,yes,,miss,,t1'' @ [CHR 0x0D, CHR 0x0A] @
       [CHR ''1'', CHR ''2'', CHR '','', CHR ''2'', CHR '','', CHR ''n'', CHR ''o'', CHR '','',
        CHR ''3'', CHR '','', CHR ''m'', CHR ''a'', CHR ''k'', CHR ''e'', CHR '','', CHR 0x22] @
       ''and one, again'' @ [CHR 0x22] @ '',t2'' @ [CHR 0x0D, CHR 0x0A]"
proof -
  let ?db = "fst (add_possessions 1 [make_twelfth, miss_first] one_game_store)"
  let ?game = "\<lparr>g_id = 1, g_client_id = ''g1'', g_name = ''Home Opener'',
                 g_opponent = Some ''Rivals'', g_game_date = ''2024-01-10'',
                 g_created_at = ''t0''\<rparr>"
  have db: "?db = one_game_store
      \<lparr>possessions := [possession_row_of 1 make_twelfth, possession_row_of 1 miss_first]\<rparr>"
    by (simp add: add_possessions_def sqlite_int_def select_game_by_id_def one_game_store_def
        insert_or_ignore_def bindable_def make_twelfth_def miss_first_def)
  have sel: "select_possessions 1 ?db =
      [possession_row_of 1 miss_first, possession_row_of 1 make_twelfth]"
    unfolding db
    by (simp add: select_possessions_def possession_row_of_def make_twelfth_def
        miss_first_def one_game_store_def)
  have l1: "csv_line (possession_row_of 1 miss_first) =
      ''1,1,yes,,miss,,t1'' @ [CHR 0x0D, CHR 0x0A]"
    by (simp add: csv_line_def possession_row_of_def miss_first_def csv_field_def
        quotechar_def str_int_1)
  have l2: "csv_line (possession_row_of 1 make_twelfth) =
       [CHR ''1'', CHR ''2'', CHR '','', CHR ''2'', CHR '','', CHR ''n'', CHR ''o'', CHR '','',
        CHR ''3'', CHR '','', CHR ''m'', CHR ''a'', CHR ''k'', CHR ''e'', CHR '','', CHR 0x22] @
       ''and one, again'' @ [CHR 0x22] @ '',t2'' @ [CHR 0x0D, CHR 0x0A]"
    by (simp add: csv_line_def possession_row_of_def make_twelfth_def csv_field_def
        quotechar_def str_int_2 str_int_3 str_int_12)
  have g: "select_game_by_id 1 ?db = Some ?game"
    unfolding db by (simp add: select_game_by_id_def one_game_store_def)
  have i: "sqlite_int 1"
    by (simp add: sqlite_int_def)
  have n: "latin1 (g_name ?game)" and d: "latin1 (g_game_date ?game)"
    by (simp_all add: latin1_def less_char_def)
  show ?thesis
    using export_csv_format [OF i g n d] sel l1 l2 by auto
qed

text \<open>
  Claim C5 as stated fails for an existing game whose name is not latin-1: the game
  is found, and the response is never built, because its
  \<^verbatim>\<open>Content-Disposition\<close> header cannot be encoded.
\<close>

theorem export_csv_header_counterexample:
  "select_game_by_id 1 lks_store =
     Some \<lparr>g_id = 1, g_client_id = ''g1'', g_name = [CHR 0xC5, CHR 0x81] @ ''KS'',
           g_opponent = Some ''Rivals'', g_game_date = ''2024-01-10'',
           g_created_at = ''t0''\<rparr> \<and>
   export_csv 1 lks_store = Inl UnicodeEncodeError"
  by (simp add: export_csv_def select_game_by_id_def lks_store_def sqlite_int_def
      latin1_def less_char_def Let_def)

end
